theory Spec2Isabelle
  imports Complex_Main "HOL-Library.Multiset"
begin

section \<open>The card game "No Thanks!" as a spreadsheet script\<close>

text \<open>
  The repository holds several revisions of one Google Apps Script file. The state of a
  game lives in the sheet: the deck and the players' tokens as JSON in developer metadata,
  the revealed card, the token pool, the active-player marker, the player names and the
  players' cards in cells. This theory embeds the game logic of the script. Painting of
  cells, the hotspot images and the dialogs are the presentation layer and are left out;
  the lock of \<^verbatim>\<open>singleEntry\<close> is taken as free, so an action is the body it guards.

  A function that the revision at the top of \<^verbatim>\<open>src/code.gs.js\<close> (lines 1 to 525) has
  is embedded from there under its own name. Where another revision is embedded beside
  it, the suffix \<open>_r2\<close> marks the revision at lines 527 to 836 of that file, \<open>_v1_0\<close>
  the revision headed "v1.0" (lines 2119 to 3158), and \<open>_p0\<close> the file
  \<^verbatim>\<open>src/unnamed/part_000\<close>. The functions \<^verbatim>\<open>tokensPerPlayer\<close>, \<^verbatim>\<open>xrange\<close>,
  \<^verbatim>\<open>groupConsecutiveRuns\<close> and \<^verbatim>\<open>shuffle\<close>, which the first revision lacks, are
  embedded from the revision "v1.0"; \<^verbatim>\<open>part_000\<close> has the last three in the same words.
\<close>

subsection \<open>Rule constants\<close>

definition MAX_PLAYER_COUNT :: nat where
  "MAX_PLAYER_COUNT = 7"

definition MIN_CARD :: int where
  "MIN_CARD = 3"

definition MAX_CARD :: int where
  "MAX_CARD = 35"

definition SETUP_CARDS_REMOVED :: nat where
  "SETUP_CARDS_REMOVED = 9"

subsection \<open>JavaScript values and arithmetic\<close>

text \<open>
  A token count travels through \<^verbatim>\<open>playerTokens[player] + tokens\<close>, where the left operand
  is \<^verbatim>\<open>undefined\<close> for a key the object lacks and either operand may be \<^verbatim>\<open>null\<close>.
  \<open>ToNumber\<close> is the conversion the operator \<^verbatim>\<open>+\<close> applies to such operands; \<open>None\<close>
  stands for the number NaN.
\<close>

datatype jsval = Undefined | Null | NaN | Num int

fun ToNumber :: "jsval \<Rightarrow> int option" where
  "ToNumber Undefined = None"
| "ToNumber Null = Some 0"
| "ToNumber NaN = None"
| "ToNumber (Num n) = Some n"

definition js_add :: "jsval \<Rightarrow> jsval \<Rightarrow> jsval" where
  "js_add a b =
     (case ToNumber a of
        None \<Rightarrow> NaN
      | Some x \<Rightarrow> (case ToNumber b of None \<Rightarrow> NaN | Some y \<Rightarrow> Num (x + y)))"

text \<open>\<^verbatim>\<open>a < k\<close> for a number \<open>k\<close>: every comparison with NaN is false.\<close>

definition js_less :: "jsval \<Rightarrow> int \<Rightarrow> bool" where
  "js_less a k = (case ToNumber a of None \<Rightarrow> False | Some x \<Rightarrow> x < k)"

text \<open>
  What a property value is after \<^verbatim>\<open>JSON.stringify\<close> and \<^verbatim>\<open>JSON.parse\<close>: NaN is written
  as \<^verbatim>\<open>null\<close>; a property whose value is \<^verbatim>\<open>undefined\<close> is not written and reads back as
  \<^verbatim>\<open>undefined\<close>.
\<close>

fun json :: "jsval \<Rightarrow> jsval" where
  "json NaN = Null"
| "json v = v"

text \<open>
  \<^verbatim>\<open>randInt(max, min = 0)\<close> is \<^verbatim>\<open>min + Math.floor(Math.random() * (max - min + 1))\<close>.
  The value of \<^verbatim>\<open>Math.random()\<close> is the argument \<open>u\<close>, a real number with \<open>0 \<le> u < 1\<close>;
  the rounding of the floating-point product is not modelled.
\<close>

definition randInt :: "int \<Rightarrow> int \<Rightarrow> real \<Rightarrow> int" where
  "randInt mx mn u = mn + \<lfloor>u * of_int (mx - mn + 1)\<rfloor>"

text \<open>
  \<^verbatim>\<open>randInt(a, b)\<close> of the later revisions: with \<open>b\<close> omitted the range is \<open>0 .. a\<close>.
\<close>

definition randInt_v1_0 :: "int \<Rightarrow> int option \<Rightarrow> real \<Rightarrow> int" where
  "randInt_v1_0 a b u =
     (let mn = (case b of None \<Rightarrow> 0 | Some _ \<Rightarrow> a);
          mx = (case b of None \<Rightarrow> a | Some b' \<Rightarrow> b')
      in mn + \<lfloor>u * of_int (mx - mn + 1)\<rfloor>)"

text \<open>
  \<^verbatim>\<open>range(max, min = 0)\<close> is \<^verbatim>\<open>[...Array(max + 1).keys()].splice(min)\<close>: the numbers
  \<open>0 .. max\<close> without the first \<open>min\<close> of them. Every call has \<open>- 1 \<le> max\<close>. The
  arguments are written \<open>mx\<close> and \<open>mn\<close> here and in \<open>randInt\<close>.
\<close>

definition range_js :: "int \<Rightarrow> nat \<Rightarrow> int list" where
  "range_js mx mn = drop mn [0..mx]"

text \<open>
  The generator \<^verbatim>\<open>xrange(a, b)\<close> yields \<open>start, ..., end - 1\<close>, where a call with one
  argument counts from 0.
\<close>

definition xrange :: "int \<Rightarrow> int option \<Rightarrow> int list" where
  "xrange a b =
     (let start = (case b of None \<Rightarrow> 0 | Some _ \<Rightarrow> a);
          stop = (case b of None \<Rightarrow> a | Some b' \<Rightarrow> b')
      in [start..stop - 1])"

text \<open>
  \<^verbatim>\<open>deck.splice(i, 1)\<close>: removes the element at index \<open>i\<close>; a negative \<open>i\<close> counts from
  the end, and an index past the end removes nothing.
\<close>

definition splice1 :: "'a list \<Rightarrow> int \<Rightarrow> 'a list" where
  "splice1 xs i =
     (let k = (if i < 0 then nat (max (int (length xs) + i) 0) else nat i)
      in take k xs @ drop (Suc k) xs)"

text \<open>\<^verbatim>\<open>deck[i]\<close>: \<^verbatim>\<open>undefined\<close> (here \<open>None\<close>) outside the array.\<close>

definition at_index :: "'a list \<Rightarrow> int \<Rightarrow> 'a option" where
  "at_index xs i = (if 0 \<le> i \<and> i < int (length xs) then Some (xs ! nat i) else None)"

subsection \<open>Deck engine\<close>

record drawn =
  card :: "int option"
  remainingDeck :: "int list"

definition drawCard :: "int list \<Rightarrow> real \<Rightarrow> drawn" where
  "drawCard deck u =
     (let randIndex = randInt (int (length deck) - 1) 0 u
      in \<lparr>card = at_index deck randIndex, remainingDeck = splice1 deck randIndex\<rparr>)"

text \<open>The revision at lines 527 to 836 draws the index with \<^verbatim>\<open>randInt(deck.length)\<close>.\<close>

definition drawCard_r2 :: "int list \<Rightarrow> real \<Rightarrow> drawn" where
  "drawCard_r2 deck u =
     (let randIndex = randInt (int (length deck)) 0 u
      in \<lparr>card = at_index deck randIndex, remainingDeck = splice1 deck randIndex\<rparr>)"

text \<open>
  The loop of \<^verbatim>\<open>newDeck\<close>: \<open>k\<close> times \<^verbatim>\<open>deck = drawCard(deck).remainingDeck\<close>. The
  argument \<open>rnd\<close> gives the successive values of \<^verbatim>\<open>Math.random()\<close>.
\<close>

fun removeCards :: "nat \<Rightarrow> (nat \<Rightarrow> real) \<Rightarrow> int list \<Rightarrow> int list" where
  "removeCards 0 rnd deck = deck"
| "removeCards (Suc k) rnd deck =
     removeCards k (\<lambda>i. rnd (Suc i)) (remainingDeck (drawCard deck (rnd 0)))"

definition newDeck :: "(nat \<Rightarrow> real) \<Rightarrow> int list" where
  "newDeck rnd = removeCards SETUP_CARDS_REMOVED rnd (range_js MAX_CARD (nat MIN_CARD))"

fun removeCards_r2 :: "nat \<Rightarrow> (nat \<Rightarrow> real) \<Rightarrow> int list \<Rightarrow> int list" where
  "removeCards_r2 0 rnd deck = deck"
| "removeCards_r2 (Suc k) rnd deck =
     removeCards_r2 k (\<lambda>i. rnd (Suc i)) (remainingDeck (drawCard_r2 deck (rnd 0)))"

definition newDeck_r2 :: "(nat \<Rightarrow> real) \<Rightarrow> int list" where
  "newDeck_r2 rnd = removeCards_r2 SETUP_CARDS_REMOVED rnd (range_js MAX_CARD (nat MIN_CARD))"

text \<open>
  \<^verbatim>\<open>newDeck\<close> of \<^verbatim>\<open>part_000\<close> builds the deck with \<^verbatim>\<open>xrange(MIN_CARD, MAX_CARD + 1)\<close> and
  loops over \<^verbatim>\<open>xrange(SETUP_CARDS_REMOVED)\<close>.
\<close>

definition newDeck_p0 :: "(nat \<Rightarrow> real) \<Rightarrow> int list" where
  "newDeck_p0 rnd =
     removeCards (length (xrange (int SETUP_CARDS_REMOVED) None)) rnd
       (xrange MIN_CARD (Some (MAX_CARD + 1)))"

subsection \<open>The state kept in the sheet\<close>

text \<open>
  \<^item> \<open>deck\<close>: the metadata value "deck", \<open>None\<close> when the metadata is absent or empty;
  \<^item> \<open>currentCard\<close>: the number in the card cell, \<open>None\<close> when the cell is blank;
  \<^item> \<open>currentTokens\<close>: how many token glyphs the pool cell shows (0 when it is blank or
    shows an instruction message);
  \<^item> \<open>activePlayer\<close>: the row of the marker among the \<open>MAX_PLAYER_COUNT\<close> player rows,
    \<open>None\<close> when no row there carries it;
  \<^item> \<open>playerNames\<close>: the cells of the name column, from the first player row on;
  \<^item> \<open>playerCards\<close>: for each player row, the numbers in its card cells (a row has 24 of
    them, as many as a game has cards);
  \<^item> \<open>playerTokens\<close>: the object in the metadata value "playerTokens", read at a key;
    a key the object lacks reads \<open>Undefined\<close>.
\<close>

record game =
  deck :: "int list option"
  currentCard :: "int option"
  currentTokens :: nat
  activePlayer :: "nat option"
  playerNames :: "string list"
  playerCards :: "nat \<Rightarrow> int list"
  playerTokens :: "nat \<Rightarrow> jsval"

datatype error =
    CardStillOut int
  | NoMoreCards
  | NoTokensLeft
  | UnsupportedPlayerCount nat
  | TypeError
  | RangeError

text \<open>
  How a user action ends: it runs to its end, it shows a message box and returns, or it
  throws. The state that comes with the outcome is the sheet as the action leaves it.
\<close>

datatype outcome = Completed | MsgBox string | Threw error

definition getDeck :: "game \<Rightarrow> int list option" where
  "getDeck s = deck s"

definition setDeck :: "int list option \<Rightarrow> game \<Rightarrow> game" where
  "setDeck d s =
     (case d of
        None \<Rightarrow> s\<lparr>deck := None\<rparr>
      | Some cs \<Rightarrow> if length cs = 0 then s\<lparr>deck := None\<rparr> else s\<lparr>deck := Some cs\<rparr>)"

text \<open>
  \<^verbatim>\<open>setCurrentCard\<close> clears the card cell for \<^verbatim>\<open>null\<close> and \<^verbatim>\<open>undefined\<close> and hands
  any other value to the renderer, which is taken to write it into the cell where
  \<^verbatim>\<open>getCurrentCard\<close> reads it back. (\<^verbatim>\<open>renderCard\<close> of the first revision names
  \<^verbatim>\<open>cardVal\<close> without receiving it; the later revisions pass it as an argument.)
\<close>

definition getCurrentCard :: "game \<Rightarrow> int option" where
  "getCurrentCard s = currentCard s"

definition setCurrentCard :: "int option \<Rightarrow> game \<Rightarrow> game" where
  "setCurrentCard cardVal s = s\<lparr>currentCard := cardVal\<rparr>"

text \<open>
  \<^verbatim>\<open>getCurrentTokens\<close> reads \<^verbatim>\<open>null\<close> from a blank cell and the number of glyphs
  otherwise. \<^verbatim>\<open>setCurrentTokens(tokens)\<close> writes \<^verbatim>\<open>TOKEN_REPR.repeat(tokens)\<close>: the
  count is converted to an integer (NaN, \<^verbatim>\<open>null\<close> and \<^verbatim>\<open>undefined\<close> give 0), and
  \<^verbatim>\<open>repeat\<close> throws a RangeError on a negative count.
\<close>

definition getCurrentTokens :: "game \<Rightarrow> jsval" where
  "getCurrentTokens s = (if currentTokens s = 0 then Null else Num (int (currentTokens s)))"

definition setCurrentTokens :: "jsval \<Rightarrow> game \<Rightarrow> error + game" where
  "setCurrentTokens tokens s =
     (let count = (case ToNumber tokens of None \<Rightarrow> 0 | Some k \<Rightarrow> k)
      in if count < 0 then Inl RangeError else Inr (s\<lparr>currentTokens := nat count\<rparr>))"

text \<open>
  \<^verbatim>\<open>setInstructionsMessage\<close> (\<^verbatim>\<open>part_000\<close>) writes a message into the pool cell, which
  then shows no token glyph.
\<close>

definition setInstructionsMessage :: "string \<Rightarrow> game \<Rightarrow> game" where
  "setInstructionsMessage message s = s\<lparr>currentTokens := 0\<rparr>"

text \<open>
  \<^verbatim>\<open>getActivePlayer\<close> calls \<^verbatim>\<open>getRow()\<close> on the cell the text finder returns, which is
  \<^verbatim>\<open>null\<close> when no player row carries the marker. \<^verbatim>\<open>setActivePlayer\<close> clears the
  marker column of the player rows and writes the marker at the given row.
\<close>

definition getActivePlayer :: "game \<Rightarrow> error + nat" where
  "getActivePlayer s = (case activePlayer s of None \<Rightarrow> Inl TypeError | Some p \<Rightarrow> Inr p)"

definition setActivePlayer :: "int \<Rightarrow> game \<Rightarrow> game" where
  "setActivePlayer player s =
     s\<lparr>activePlayer :=
          (if 0 \<le> player \<and> player < int MAX_PLAYER_COUNT then Some (nat player) else None)\<rparr>"

definition getPlayerCount :: "game \<Rightarrow> nat" where
  "getPlayerCount s =
     length (filter (\<lambda>name. name \<noteq> []) (take MAX_PLAYER_COUNT (playerNames s)))"

definition addCardToPlayer :: "nat \<Rightarrow> int \<Rightarrow> game \<Rightarrow> game" where
  "addCardToPlayer player c s =
     s\<lparr>playerCards := (playerCards s)(player := sort (playerCards s player @ [c]))\<rparr>"

definition resetPlayerCards :: "game \<Rightarrow> game" where
  "resetPlayerCards s =
     s\<lparr>playerCards := (\<lambda>row. if row < MAX_PLAYER_COUNT then [] else playerCards s row)\<rparr>"

definition getPlayerTokens :: "game \<Rightarrow> nat \<Rightarrow> jsval" where
  "getPlayerTokens s = playerTokens s"

definition setPlayerTokens :: "(nat \<Rightarrow> jsval) option \<Rightarrow> game \<Rightarrow> game" where
  "setPlayerTokens obj s =
     (case obj of
        None \<Rightarrow> s\<lparr>playerTokens := (\<lambda>_. Undefined)\<rparr>
      | Some m \<Rightarrow> s\<lparr>playerTokens := (\<lambda>key. json (m key))\<rparr>)"

subsection \<open>Token economy\<close>

text \<open>\<^verbatim>\<open>addTokensToPlayer\<close> throws before it writes anything.\<close>

definition addTokensToPlayer :: "nat \<Rightarrow> jsval \<Rightarrow> game \<Rightarrow> error + game" where
  "addTokensToPlayer player tokens s =
     (let obj = getPlayerTokens s;
          newPlayerTokensCount = js_add (obj player) tokens
      in if js_less newPlayerTokensCount 0 then Inl NoTokensLeft
         else Inr (setPlayerTokens (Some (obj(player := newPlayerTokensCount))) s))"

text \<open>
  \<^verbatim>\<open>dealTokens\<close>: the chain of \<^verbatim>\<open>if\<close>s leaves \<^verbatim>\<open>tokens\<close> undefined above 7 players; the
  \<^verbatim>\<open>forEach\<close> then adds the tokens player by player.
\<close>

definition tokensFor :: "nat \<Rightarrow> jsval" where
  "tokensFor n =
     (if n \<le> 5 then Num 11 else if n = 6 then Num 9 else if n = 7 then Num 7 else Undefined)"

fun forEach_addTokens :: "int list \<Rightarrow> jsval \<Rightarrow> game \<Rightarrow> error option \<times> game" where
  "forEach_addTokens [] tokens s = (None, s)"
| "forEach_addTokens (player # rest) tokens s =
     (case addTokensToPlayer (nat player) tokens s of
        Inl e \<Rightarrow> (Some e, s)
      | Inr s' \<Rightarrow> forEach_addTokens rest tokens s')"

definition dealTokens :: "nat \<Rightarrow> game \<Rightarrow> error option \<times> game" where
  "dealTokens n s = forEach_addTokens (range_js (int n - 1) 0) (tokensFor n) s"

text \<open>
  \<^verbatim>\<open>dealTokens\<close> of \<^verbatim>\<open>part_000\<close> has the same chain of \<^verbatim>\<open>if\<close>s, builds the object
  \<^verbatim>\<open>{0: tokens, ..., n - 1: tokens}\<close> and stores it.
\<close>

definition dealTokens_p0 :: "nat \<Rightarrow> game \<Rightarrow> game" where
  "dealTokens_p0 n s =
     setPlayerTokens
       (Some (\<lambda>key. if int key \<in> set (xrange (int n) None) then tokensFor n else Undefined)) s"

text \<open>
  \<^verbatim>\<open>tokensPerPlayer\<close> of the revision "v1.0" is a \<^verbatim>\<open>switch\<close> with a throwing default;
  its \<^verbatim>\<open>dealTokens\<close> writes the result into the token cell of each of the \<open>n\<close> players.
\<close>

definition tokensPerPlayer :: "nat \<Rightarrow> error + int" where
  "tokensPerPlayer n =
     (if n = 3 \<or> n = 4 \<or> n = 5 then Inr 11
      else if n = 6 then Inr 9
      else if n = 7 then Inr 7
      else Inl (UnsupportedPlayerCount n))"

definition dealTokens_v1_0 :: "nat \<Rightarrow> error + int list" where
  "dealTokens_v1_0 n =
     (case tokensPerPlayer n of Inl e \<Rightarrow> Inl e | Inr tokens \<Rightarrow> Inr (replicate n tokens))"

subsection \<open>User actions\<close>

definition revealTopCard :: "real \<Rightarrow> game \<Rightarrow> outcome \<times> game" where
  "revealTopCard u s =
     (case getCurrentCard s of
        Some c \<Rightarrow> (Threw (CardStillOut c), s)
      | None \<Rightarrow>
          (case getDeck s of
             None \<Rightarrow> (Threw NoMoreCards, s)
           | Some d \<Rightarrow>
               if length d = 0 then (Threw NoMoreCards, s)
               else
                 (let dr = drawCard d u;
                      s1 = setCurrentCard (card dr) s;
                      s2 = setDeck (Some (remainingDeck dr)) s1
                  in case setCurrentTokens (Num 0) s2 of
                       Inl e \<Rightarrow> (Threw e, s2)
                     | Inr s3 \<Rightarrow> (Completed, s3))))"

text \<open>
  \<^verbatim>\<open>revealTopCard\<close> of \<^verbatim>\<open>part_000\<close> ends with \<^verbatim>\<open>setInstructionsMessage(MSG_TURN)\<close>
  where the one above ends with \<^verbatim>\<open>setCurrentTokens(0)\<close>.
\<close>

definition revealTopCard_p0 :: "real \<Rightarrow> game \<Rightarrow> outcome \<times> game" where
  "revealTopCard_p0 u s =
     (case getCurrentCard s of
        Some c \<Rightarrow> (Threw (CardStillOut c), s)
      | None \<Rightarrow>
          (case getDeck s of
             None \<Rightarrow> (Threw NoMoreCards, s)
           | Some d \<Rightarrow>
               if length d = 0 then (Threw NoMoreCards, s)
               else
                 (let dr = drawCard d u;
                      s1 = setCurrentCard (card dr) s;
                      s2 = setDeck (Some (remainingDeck dr)) s1
                  in (Completed, setInstructionsMessage ''MSG_TURN'' s2))))"

definition takeCard :: "game \<Rightarrow> outcome \<times> game" where
  "takeCard s =
     (let cardVal = getCurrentCard s;
          tokens = getCurrentTokens s
      in case cardVal of
           None \<Rightarrow> (MsgBox ''No card revealed yet to take'', s)
         | Some c \<Rightarrow>
             (let s1 = setCurrentCard None s
              in case setCurrentTokens Null s1 of
                   Inl e \<Rightarrow> (Threw e, s1)
                 | Inr s2 \<Rightarrow>
                     (case getActivePlayer s2 of
                        Inl e \<Rightarrow> (Threw e, s2)
                      | Inr player \<Rightarrow>
                          (let s3 = addCardToPlayer player c s2
                           in case addTokensToPlayer player tokens s3 of
                                Inl e \<Rightarrow> (Threw e, s3)
                              | Inr s4 \<Rightarrow> (Completed, s4)))))"

text \<open>
  \<^verbatim>\<open>advanceActivePlayer\<close>: with no player name on the sheet \<^verbatim>\<open>(activePlayer + 1) % 0\<close>
  is NaN, which is no row: the marker column is cleared and the range lookup fails.
\<close>

definition advanceActivePlayer :: "game \<Rightarrow> error option \<times> game" where
  "advanceActivePlayer s =
     (case getActivePlayer s of
        Inl e \<Rightarrow> (Some e, s)
      | Inr a \<Rightarrow>
          (let n = getPlayerCount s
           in if n = 0 then (Some RangeError, s\<lparr>activePlayer := None\<rparr>)
              else (None, setActivePlayer (int ((a + 1) mod n)) s)))"

definition noThanks :: "game \<Rightarrow> outcome \<times> game" where
  "noThanks s =
     (case getCurrentCard s of
        None \<Rightarrow> (MsgBox ''No card revealed yet!'', s)
      | Some c \<Rightarrow>
          (case getActivePlayer s of
             Inl e \<Rightarrow> (Threw e, s)
           | Inr player \<Rightarrow>
               (case addTokensToPlayer player (Num (- 1)) s of
                  Inl e \<Rightarrow> (Threw e, s)
                | Inr s1 \<Rightarrow>
                    (case setCurrentTokens (js_add (getCurrentTokens s1) (Num 1)) s1 of
                       Inl e \<Rightarrow> (Threw e, s1)
                     | Inr s2 \<Rightarrow>
                         (case advanceActivePlayer s2 of
                            (Some e, s3) \<Rightarrow> (Threw e, s3)
                          | (None, s3) \<Rightarrow> (Completed, s3))))))"

text \<open>
  \<^verbatim>\<open>newGame\<close>: the first value of \<^verbatim>\<open>Math.random()\<close> picks the starting player, the
  following ones are drawn by \<^verbatim>\<open>newDeck\<close>.
\<close>

definition newGame :: "(nat \<Rightarrow> real) \<Rightarrow> game \<Rightarrow> outcome \<times> game" where
  "newGame rnd s =
     (let s1 = setDeck None s;
          s2 = setPlayerTokens None s1;
          s3 = setCurrentCard None s2
      in case setCurrentTokens Null s3 of
           Inl e \<Rightarrow> (Threw e, s3)
         | Inr s4 \<Rightarrow>
             (let s5 = resetPlayerCards s4;
                  n = getPlayerCount s5;
                  s6 = setActivePlayer (randInt (int n - 1) 0 (rnd 0)) s5
              in case dealTokens n s6 of
                   (Some e, s7) \<Rightarrow> (Threw e, s7)
                 | (None, s7) \<Rightarrow>
                     (Completed, setDeck (Some (newDeck (\<lambda>i. rnd (Suc i)))) s7)))"

subsection \<open>Hands: runs of consecutive cards\<close>



subsection \<open>Shuffling the player order\<close>

text \<open>
  \<^verbatim>\<open>shuffle\<close> walks \<open>i\<close> from the last index down to 1 and swaps the element at \<open>i\<close> with
  the one at \<^verbatim>\<open>randInt(i)\<close>, which lies in \<open>0 .. i\<close> since \<^verbatim>\<open>Math.random()\<close> lies in
  \<open>[0, 1)\<close>. \<open>shuffle_from i\<close> is the loop from \<open>i\<close> on.
\<close>

fun shuffle_from :: "nat \<Rightarrow> (nat \<Rightarrow> real) \<Rightarrow> 'a list \<Rightarrow> 'a list" where
  "shuffle_from 0 rnd array = array"
| "shuffle_from (Suc i) rnd array =
     (let randomIndex = nat (randInt_v1_0 (int (Suc i)) None (rnd 0));
          temporaryValue = array ! Suc i;
          array1 = array[Suc i := array ! randomIndex];
          array2 = array1[randomIndex := temporaryValue]
      in shuffle_from i (\<lambda>k. rnd (Suc k)) array2)"

definition shuffle :: "(nat \<Rightarrow> real) \<Rightarrow> 'a list \<Rightarrow> 'a list" where
  "shuffle rnd array = shuffle_from (length array - 1) rnd array"

subsection \<open>Reading a game off the sheet\<close>

text \<open>The players are the rows \<open>0, ..., getPlayerCount - 1\<close>.\<close>

definition players :: "game \<Rightarrow> nat list" where
  "players s = [0..<getPlayerCount s]"

text \<open>The number a stored token count stands for in the script's arithmetic.\<close>

definition tokensHeld :: "jsval \<Rightarrow> int" where
  "tokensHeld v = (case ToNumber v of None \<Rightarrow> 0 | Some k \<Rightarrow> k)"



definition deckCards :: "game \<Rightarrow> int list" where
  "deckCards s = (case deck s of None \<Rightarrow> [] | Some d \<Rightarrow> d)"




text \<open>A stored token count: a number that is not negative, or \<^verbatim>\<open>null\<close>.\<close>

fun isCount :: "jsval \<Rightarrow> bool" where
  "isCount (Num k) = (0 \<le> k)"
| "isCount Null = True"
| "isCount v = False"

definition validActivePlayer :: "game \<Rightarrow> bool" where
  "validActivePlayer s =
     (case activePlayer s of None \<Rightarrow> False | Some a \<Rightarrow> a < getPlayerCount s)"

text \<open>
  A game at its start: no card is revealed, the pool is empty, the marker is on a player,
  and every player holds a token count.
\<close>

definition tokensDealt :: "game \<Rightarrow> bool" where
  "tokensDealt s =
     (currentCard s = None \<and> currentTokens s = 0 \<and> validActivePlayer s \<and>
      list_all (\<lambda>p. isCount (playerTokens s p)) (players s))"

text \<open>
  A game at its start: no card is revealed, the marker is on a player, the hands are
  empty, and the deck holds distinct cards of the range, all but the removed ones.
\<close>

definition cardsDealt :: "game \<Rightarrow> bool" where
  "cardsDealt s =
     (currentCard s = None \<and> validActivePlayer s \<and>
      list_all (\<lambda>p. playerCards s p = []) (players s) \<and>
      distinct (deckCards s) \<and>
      list_all (\<lambda>c. MIN_CARD \<le> c \<and> c \<le> MAX_CARD) (deckCards s) \<and>
      int (length (deckCards s)) + int SETUP_CARDS_REMOVED = MAX_CARD - MIN_CARD + 1)"




subsection \<open>Example sheets\<close>

text \<open>A sheet on which only the player names have been typed in.\<close>

definition emptySheet :: "string list \<Rightarrow> game" where
  "emptySheet names =
     \<lparr>deck = None, currentCard = None, currentTokens = 0, activePlayer = None,
      playerNames = names, playerCards = (\<lambda>row. []), playerTokens = (\<lambda>key. Undefined)\<rparr>"


text \<open>
  A later moment of a game of four: the card 20 is revealed with two tokens on it, and
  the marker is on the first player (row 0), who has no token left.
\<close>

definition cardOut :: game where
  "cardOut =
     \<lparr>deck = Some [12, 13, 14, 15, 16, 17, 18, 19, 21, 22, 23,
                    24, 25, 26, 27, 28, 29, 30, 31, 32, 33, 34, 35],
      currentCard = Some 20, currentTokens = 2, activePlayer = Some 0,
      playerNames = [''Ann'', ''Bob'', ''Cyd'', ''Dee''],
      playerCards = (\<lambda>row. []),
      playerTokens =
        (\<lambda>key. if key = 0 then Num 0 else if key = 1 then Num 22
              else if key < 4 then Num 10 else Undefined)\<rparr>"

text \<open>
  A round of the game of four: the card 24 is revealed, players 2 and 3 decline, and
  player 0 takes the card with the two tokens on it.
\<close>

definition card24Out :: game where
  "card24Out =
     \<lparr>deck = Some [12, 13, 14, 15, 16, 17, 18, 19, 20, 21, 22, 23,
                    25, 26, 27, 28, 29, 30, 31, 32, 33, 34, 35],
      currentCard = Some 24, currentTokens = 0, activePlayer = Some 2,
      playerNames = [''Ann'', ''Bob'', ''Cyd'', ''Dee''],
      playerCards = (\<lambda>row. []),
      playerTokens = (\<lambda>key. if key < 4 then Num 11 else Undefined)\<rparr>"

definition declinedOnce :: game where
  "declinedOnce =
     \<lparr>deck = Some [12, 13, 14, 15, 16, 17, 18, 19, 20, 21, 22, 23,
                    25, 26, 27, 28, 29, 30, 31, 32, 33, 34, 35],
      currentCard = Some 24, currentTokens = 1, activePlayer = Some 3,
      playerNames = [''Ann'', ''Bob'', ''Cyd'', ''Dee''],
      playerCards = (\<lambda>row. []),
      playerTokens =
        (\<lambda>key. if key = 2 then Num 10 else if key < 4 then Num 11 else Undefined)\<rparr>"

definition declinedTwice :: game where
  "declinedTwice =
     \<lparr>deck = Some [12, 13, 14, 15, 16, 17, 18, 19, 20, 21, 22, 23,
                    25, 26, 27, 28, 29, 30, 31, 32, 33, 34, 35],
      currentCard = Some 24, currentTokens = 2, activePlayer = Some 0,
      playerNames = [''Ann'', ''Bob'', ''Cyd'', ''Dee''],
      playerCards = (\<lambda>row. []),
      playerTokens =
        (\<lambda>key. if key = 2 \<or> key = 3 then Num 10
              else if key < 4 then Num 11 else Undefined)\<rparr>"

definition taken24 :: game where
  "taken24 =
     \<lparr>deck = Some [12, 13, 14, 15, 16, 17, 18, 19, 20, 21, 22, 23,
                    25, 26, 27, 28, 29, 30, 31, 32, 33, 34, 35],
      currentCard = None, currentTokens = 0, activePlayer = Some 0,
      playerNames = [''Ann'', ''Bob'', ''Cyd'', ''Dee''],
      playerCards = (\<lambda>row. if row = 0 then [24] else []),
      playerTokens =
        (\<lambda>key. if key = 0 then Num 13 else if key = 2 \<or> key = 3 then Num 10
              else if key < 4 then Num 11 else Undefined)\<rparr>"

subsection \<open>A game in play\<close>


section \<open>Properties\<close>

subsection \<open>Random indices\<close>

lemma randInt_bounds:
  assumes "0 \<le> u" "u < 1" "0 \<le> m"
  shows "0 \<le> randInt m 0 u \<and> randInt m 0 u \<le> m"
proof -
  have pos: "0 \<le> u * of_int (m + 1)" using assms by simp
  have "u * of_int (m + 1) < of_int (m + 1)" using assms by simp
  then have "\<lfloor>u * of_int (m + 1)\<rfloor> < m + 1" by (simp only: floor_less_iff)
  moreover have "0 \<le> \<lfloor>u * of_int (m + 1)\<rfloor>" using pos by (simp only: zero_le_floor)
  ultimately show ?thesis by (simp add: randInt_def)
qed

lemma randInt_index:
  assumes "0 \<le> u" "u < 1" "0 < n"
  shows "\<exists>k<n. randInt (int n - 1) 0 u = int k"
proof -
  have "0 \<le> randInt (int n - 1) 0 u \<and> randInt (int n - 1) 0 u \<le> int n - 1"
    using assms by (intro randInt_bounds) simp_all
  then have "nat (randInt (int n - 1) 0 u) < n \<and>
             randInt (int n - 1) 0 u = int (nat (randInt (int n - 1) 0 u))"
    by (simp add: nat_less_iff)
  then show ?thesis by blast
qed

text \<open>
  The index \<open>k\<close> is drawn exactly when \<^verbatim>\<open>Math.random()\<close> falls into the \<open>k\<close>-th of \<open>n\<close>
  intervals of equal length: the draw is uniform if \<^verbatim>\<open>Math.random()\<close> is.
\<close>

lemma randInt_uniform:
  assumes "0 < n"
  shows "randInt (int n - 1) 0 u = int k \<longleftrightarrow>
         real k / real n \<le> u \<and> u < real (k + 1) / real n"
proof -
  have "randInt (int n - 1) 0 u = \<lfloor>u * real n\<rfloor>" by (simp add: randInt_def)
  moreover have "\<lfloor>u * real n\<rfloor> = int k \<longleftrightarrow> real k \<le> u * real n \<and> u * real n < real k + 1"
    by (simp add: floor_eq_iff)
  ultimately show ?thesis using assms by (simp add: field_simps)
qed

subsection \<open>Drawing a card\<close>

lemma drawCard_at:
  assumes "randInt (int (length d) - 1) 0 u = int k" "k < length d"
  shows "drawCard d u = \<lparr>card = Some (d ! k), remainingDeck = take k d @ drop (Suc k) d\<rparr>"
  using assms by (simp add: drawCard_def at_index_def splice1_def)

lemma mset_remove_nth:
  assumes "k < length d"
  shows "add_mset (d ! k) (mset (take k d @ drop (Suc k) d)) = mset d"
proof -
  have "d = take k d @ d ! k # drop (Suc k) d" using assms by (rule id_take_nth_drop)
  then have "mset d = mset (take k d @ d ! k # drop (Suc k) d)" by simp
  then show ?thesis by simp
qed

lemma distinct_remove_nth:
  assumes "distinct d"
  shows "distinct (take k d @ drop (Suc k) d)"
proof -
  have "distinct (take k d @ drop k d)" using assms by simp
  then have "distinct (take k d)" and "set (take k d) \<inter> set (drop k d) = {}"
    by (simp_all only: distinct_append)
  moreover have "set (drop (Suc k) d) \<subseteq> set (drop k d)"
    by (rule set_drop_subset_set_drop) simp
  moreover have "distinct (drop (Suc k) d)" using assms by (rule distinct_drop)
  ultimately show ?thesis by (auto simp: distinct_append)
qed

text \<open>
  \<^verbatim>\<open>drawCard\<close> at the top of \<^verbatim>\<open>src/code.gs.js\<close> (and in \<^verbatim>\<open>part_000\<close>): on a deck that
  is not empty the index lies in the deck, the card is the element there, and the
  remaining deck is the deck without it.
\<close>

lemma drawCard_draws:
  assumes "d \<noteq> []" "0 \<le> u" "u < 1"
  shows "\<exists>k<length d.
           randInt (int (length d) - 1) 0 u = int k \<and>
           card (drawCard d u) = Some (d ! k) \<and>
           remainingDeck (drawCard d u) = take k d @ drop (Suc k) d \<and>
           length (remainingDeck (drawCard d u)) = length d - 1 \<and>
           d ! k \<in> set d \<and>
           add_mset (d ! k) (mset (remainingDeck (drawCard d u))) = mset d"
proof -
  from assms obtain k where k: "k < length d" "randInt (int (length d) - 1) 0 u = int k"
    using randInt_index [of u "length d"] by auto
  have eq: "drawCard d u = \<lparr>card = Some (d ! k), remainingDeck = take k d @ drop (Suc k) d\<rparr>"
    using k by (simp add: drawCard_at)
  have len: "length (take k d @ drop (Suc k) d) = length d - 1" using k by simp
  show ?thesis using k eq len mset_remove_nth [OF k(1)] by (intro exI [of _ k]) simp
qed

text \<open>
  C4 (\<^verbatim>\<open>drawCard\<close> picks an index in \<open>0 .. n - 1\<close>, returns the element there, which is a
  card of the deck, and a remaining deck of length \<open>n - 1\<close>): the \<^verbatim>\<open>drawCard\<close> at lines 614
  to 625 of \<^verbatim>\<open>src/code.gs.js\<close> draws its index in \<open>0 .. n\<close>. On the deck \<open>3, 4, 5\<close> with
  \<^verbatim>\<open>Math.random()\<close> at \<open>3/4\<close> the index is 3: the card is \<^verbatim>\<open>undefined\<close> and the deck
  keeps its three cards.
\<close>

theorem drawCard_r2_index_past_end:
  "randInt (int (length [3, 4, 5 :: int])) 0 (3 / 4) = 3 \<and>
   card (drawCard_r2 [3, 4, 5] (3 / 4)) = None \<and>
   remainingDeck (drawCard_r2 [3, 4, 5] (3 / 4)) = [3, 4, 5]"
  by (simp add: drawCard_r2_def randInt_def at_index_def splice1_def)

subsection \<open>Building the deck\<close>

lemma removeCards_props:
  assumes "\<And>i. 0 \<le> rnd i" "\<And>i. rnd i < 1" "k \<le> length d" "distinct d"
  shows "length (removeCards k rnd d) = length d - k \<and> distinct (removeCards k rnd d) \<and>
         set (removeCards k rnd d) \<subseteq> set d"
  using assms
proof (induction k arbitrary: rnd d)
  case 0
  then show ?case by simp
next
  case (Suc k)
  then have ne: "d \<noteq> []" by auto
  let ?d' = "remainingDeck (drawCard d (rnd 0))"
  from drawCard_draws [OF ne, of "rnd 0"] Suc.prems(1,2)
  obtain j where j: "j < length d" "?d' = take j d @ drop (Suc j) d" "length ?d' = length d - 1"
    by blast
  have dist: "distinct ?d'" unfolding j(2) using Suc.prems(4) by (rule distinct_remove_nth)
  have sub: "set ?d' \<subseteq> set d" unfolding j(2) by (auto dest: in_set_takeD in_set_dropD)
  have "length (removeCards k (\<lambda>i. rnd (Suc i)) ?d') = length ?d' - k \<and>
        distinct (removeCards k (\<lambda>i. rnd (Suc i)) ?d') \<and>
        set (removeCards k (\<lambda>i. rnd (Suc i)) ?d') \<subseteq> set ?d'"
    using Suc.prems j(3) dist by (intro Suc.IH) auto
  then show ?case using j(3) sub by auto
qed

lemma range_js_cards: "range_js MAX_CARD (nat MIN_CARD) = [3..35]"
  by (simp add: range_js_def MAX_CARD_def MIN_CARD_def upto.simps)

lemma xrange_cards: "xrange MIN_CARD (Some (MAX_CARD + 1)) = [3..35]"
  by (simp add: xrange_def MAX_CARD_def MIN_CARD_def)

lemma xrange_count: "length (xrange (int SETUP_CARDS_REMOVED) None) = SETUP_CARDS_REMOVED"
  by (simp add: xrange_def SETUP_CARDS_REMOVED_def)

text \<open>\<^verbatim>\<open>newDeck\<close> of \<^verbatim>\<open>part_000\<close> computes what the one at the top of \<^verbatim>\<open>src/code.gs.js\<close> does.\<close>

lemma newDeck_p0_eq: "newDeck_p0 rnd = newDeck rnd"
  by (simp only: newDeck_p0_def newDeck_def xrange_cards xrange_count range_js_cards)

text \<open>
  With \<^verbatim>\<open>drawCard\<close> as at the top of \<^verbatim>\<open>src/code.gs.js\<close>, the new deck has 24 distinct
  cards between 3 and 35.
\<close>

lemma newDeck_scenario:
  assumes "\<And>i. 0 \<le> rnd i" "\<And>i. rnd i < 1"
  shows "length (newDeck rnd) = 24 \<and> distinct (newDeck rnd) \<and>
         (\<forall>c \<in> set (newDeck rnd). 3 \<le> c \<and> c \<le> 35)"
proof -
  have "length (removeCards 9 rnd [3..35]) = length [3..35::int] - 9 \<and>
        distinct (removeCards 9 rnd [3..35]) \<and>
        set (removeCards 9 rnd [3..35]) \<subseteq> set [3..35]"
    using assms by (intro removeCards_props) simp_all
  then show ?thesis
    by (auto simp: newDeck_def range_js_cards SETUP_CARDS_REMOVED_def)
qed

text \<open>
  C9 (a new deck over the cards 3 to 35 with 9 cards removed always has exactly 24 cards):
  \<^verbatim>\<open>newDeck\<close> at lines 627 to 637 of \<^verbatim>\<open>src/code.gs.js\<close> removes its cards with the
  \<^verbatim>\<open>drawCard\<close> of lines 614 to 625. With \<^verbatim>\<open>Math.random()\<close> at \<open>99/100\<close> every one of
  the nine draws has its index past the end of the deck and removes nothing: the new deck
  has all 33 cards.
\<close>

theorem newDeck_r2_removes_nothing:
  "newDeck_r2 (\<lambda>i. 99 / 100) =
     [3, 4, 5, 6, 7, 8, 9, 10, 11, 12, 13, 14, 15, 16, 17, 18, 19, 20, 21, 22, 23,
      24, 25, 26, 27, 28, 29, 30, 31, 32, 33, 34, 35] \<and>
   length (newDeck_r2 (\<lambda>i. 99 / 100)) = 33"
  by (simp add: newDeck_r2_def SETUP_CARDS_REMOVED_def range_js_cards eval_nat_numeral
      drawCard_r2_def randInt_def splice1_def upto.simps)

subsection \<open>Dealing the tokens\<close>

text \<open>
  \<^verbatim>\<open>tokensPerPlayer\<close> and \<^verbatim>\<open>dealTokens\<close> of the revision "v1.0": 11 tokens each for 3, 4
  or 5 players, 9 for 6, 7 for 7, and an error for every other player count.
\<close>

lemma dealTokens_v1_0_table:
  "dealTokens_v1_0 n =
     (if n < 3 \<or> 7 < n then Inl (UnsupportedPlayerCount n)
      else Inr (replicate n (if n \<le> 5 then 11 else if n = 6 then 9 else 7)))"
  by (auto simp: dealTokens_v1_0_def tokensPerPlayer_def)

lemma dealTokens_v1_0_two: "dealTokens_v1_0 2 = Inl (UnsupportedPlayerCount 2)"
  by (simp add: dealTokens_v1_0_table)

text \<open>
  C3 (\<^verbatim>\<open>dealTokens\<close> gives 11 tokens each to 3, 4 or 5 players, 9 to 6, 7 to 7, and fails
  for every other player count): \<^verbatim>\<open>dealTokens\<close> at lines 186 to 197 of
  \<^verbatim>\<open>src/code.gs.js\<close> picks 11 tokens for every count up to 5 and never fails. On a sheet
  with two names it deals to both players; and as it adds the 11 tokens to the
  \<^verbatim>\<open>undefined\<close> entry of the emptied token object, each stored count is NaN, which the
  metadata holds as \<^verbatim>\<open>null\<close>.
\<close>

theorem dealTokens_two_players:
  "tokensFor 2 = Num 11 \<and>
   fst (dealTokens 2 (emptySheet [''Ann'', ''Bob''])) = None \<and>
   map (playerTokens (snd (dealTokens 2 (emptySheet [''Ann'', ''Bob'']))))
     [0, 1] = [Null, Null]"
  by (simp add: dealTokens_def tokensFor_def range_js_def upto.simps emptySheet_def
      addTokensToPlayer_def getPlayerTokens_def setPlayerTokens_def js_add_def js_less_def)

subsection \<open>Rejected actions\<close>

text \<open>
  C8: when a card is revealed already, \<^verbatim>\<open>revealTopCard\<close> throws the "still out" error
  and leaves the sheet as it was: deck, card, pool, hands, token counts and marker. This
  holds for \<^verbatim>\<open>revealTopCard\<close> at the top of \<^verbatim>\<open>src/code.gs.js\<close> and for the one of
  \<^verbatim>\<open>part_000\<close>.
\<close>

theorem revealTopCard_card_still_out:
  assumes "currentCard s = Some c"
  shows "revealTopCard u s = (Threw (CardStillOut c), s) \<and>
         revealTopCard_p0 u s = (Threw (CardStillOut c), s)"
  using assms by (simp add: revealTopCard_def revealTopCard_p0_def getCurrentCard_def)

theorem revealTopCard_card_still_out_witness:
  "currentCard cardOut = Some 20 \<and>
   revealTopCard (1 / 2) cardOut = (Threw (CardStillOut 20), cardOut) \<and>
   revealTopCard_p0 (1 / 2) cardOut = (Threw (CardStillOut 20), cardOut)"
proof -
  have c: "currentCard cardOut = Some 20" by (simp add: cardOut_def)
  show ?thesis using c revealTopCard_card_still_out [OF c, of "1 / 2"] by simp
qed

text \<open>
  C5: when the active player holds 0 tokens and a card is revealed, \<^verbatim>\<open>noThanks\<close> throws
  the "no tokens left" error and leaves the sheet as it was. (A count stored as
  \<^verbatim>\<open>null\<close> counts as 0 in \<^verbatim>\<open>addTokensToPlayer\<close>.)
\<close>

theorem noThanks_without_tokens:
  assumes "currentCard s = Some c"
    and "activePlayer s = Some p"
    and "playerTokens s p = Num 0 \<or> playerTokens s p = Null"
  shows "noThanks s = (Threw NoTokensLeft, s)"
  using assms
  by (auto simp: noThanks_def getCurrentCard_def getActivePlayer_def addTokensToPlayer_def
      getPlayerTokens_def js_add_def js_less_def)

theorem noThanks_without_tokens_witness:
  "currentCard cardOut = Some 20 \<and> activePlayer cardOut = Some 0 \<and>
   playerTokens cardOut 0 = Num 0 \<and> noThanks cardOut = (Threw NoTokensLeft, cardOut)"
proof -
  have c: "currentCard cardOut = Some 20" and a: "activePlayer cardOut = Some 0"
    and t: "playerTokens cardOut 0 = Num 0 \<or> playerTokens cardOut 0 = Null"
    by (simp_all add: cardOut_def)
  have t0: "playerTokens cardOut 0 = Num 0" by (simp add: cardOut_def)
  show ?thesis using c a t0 noThanks_without_tokens [OF c a t] by simp
qed

subsection \<open>The active player\<close>

lemma getPlayerCount_le: "getPlayerCount s \<le> MAX_PLAYER_COUNT"
proof -
  have "getPlayerCount s \<le> length (take MAX_PLAYER_COUNT (playerNames s))"
    unfolding getPlayerCount_def by (rule length_filter_le)
  then show ?thesis by simp
qed

lemma addTokensToPlayer_fields:
  assumes "addTokensToPlayer p t s = Inr s'"
  shows "activePlayer s' = activePlayer s" and "playerNames s' = playerNames s"
    and "currentCard s' = currentCard s" and "currentTokens s' = currentTokens s"
    and "deck s' = deck s" and "playerCards s' = playerCards s"
  using assms
  by (auto simp: addTokensToPlayer_def setPlayerTokens_def Let_def split: if_splits)

lemma setCurrentTokens_fields:
  assumes "setCurrentTokens t s = Inr s'"
  shows "activePlayer s' = activePlayer s" and "playerNames s' = playerNames s"
    and "currentCard s' = currentCard s" and "playerTokens s' = playerTokens s"
    and "deck s' = deck s" and "playerCards s' = playerCards s"
  using assms by (auto simp: setCurrentTokens_def Let_def split: if_splits)

lemma getPlayerCount_cong:
  "playerNames s' = playerNames s \<Longrightarrow> getPlayerCount s' = getPlayerCount s"
  by (simp add: getPlayerCount_def)

lemma setCurrentTokens_Null: "setCurrentTokens Null s = Inr (s\<lparr>currentTokens := 0\<rparr>)"
  by (simp add: setCurrentTokens_def)


lemma takeCard_activePlayer: "activePlayer (snd (takeCard s)) = activePlayer s"
proof (cases "currentCard s")
  case None
  then show ?thesis by (simp add: takeCard_def getCurrentCard_def)
next
  case (Some c)
  show ?thesis
  proof (cases "activePlayer s")
    case None
    then show ?thesis
      using Some
      by (simp add: takeCard_def getCurrentCard_def setCurrentCard_def setCurrentTokens_Null
          getActivePlayer_def)
  next
    case (Some a)
    let ?s3 = "addCardToPlayer a c (s\<lparr>currentCard := None, currentTokens := 0\<rparr>)"
    have s3: "activePlayer ?s3 = activePlayer s" by (simp add: addCardToPlayer_def)
    have "activePlayer (snd (case addTokensToPlayer a (getCurrentTokens s) ?s3 of
              Inl e \<Rightarrow> (Threw e, ?s3) | Inr s4 \<Rightarrow> (Completed, s4))) = activePlayer s"
      using s3 by (auto split: sum.splits dest: addTokensToPlayer_fields(1))
    then show ?thesis
      using Some \<open>currentCard s = Some c\<close>
      by (simp add: takeCard_def getCurrentCard_def setCurrentCard_def setCurrentTokens_Null
          getActivePlayer_def Let_def)
  qed
qed

lemma noThanks_activePlayer:
  assumes "noThanks s = (Completed, s')"
  shows "\<exists>a. activePlayer s = Some a \<and> 0 < getPlayerCount s \<and>
             activePlayer s' = Some ((a + 1) mod getPlayerCount s)"
proof -
  from assms obtain c a s1 s2 where
    a: "activePlayer s = Some a"
    and s1: "addTokensToPlayer a (Num (- 1)) s = Inr s1"
    and s2: "setCurrentTokens (js_add (getCurrentTokens s1) (Num 1)) s1 = Inr s2"
    and adv: "advanceActivePlayer s2 = (None, s')"
    by (auto simp: noThanks_def getCurrentCard_def getActivePlayer_def
        split: option.splits sum.splits prod.splits)
  have act: "activePlayer s2 = Some a"
    using a addTokensToPlayer_fields(1) [OF s1] setCurrentTokens_fields(1) [OF s2] by simp
  have names: "getPlayerCount s2 = getPlayerCount s"
    using addTokensToPlayer_fields(2) [OF s1] setCurrentTokens_fields(2) [OF s2]
    by (simp add: getPlayerCount_def)
  have pos: "0 < getPlayerCount s"
    using adv act names by (auto simp: advanceActivePlayer_def getActivePlayer_def Let_def split: if_splits)
  have "(a + 1) mod getPlayerCount s < getPlayerCount s" using pos by simp
  then have small: "(a + 1) mod getPlayerCount s < MAX_PLAYER_COUNT"
    using getPlayerCount_le [of s] by simp
  have "activePlayer s' = Some ((a + 1) mod getPlayerCount s)"
    using adv act names pos small
    by (auto simp: advanceActivePlayer_def getActivePlayer_def setActivePlayer_def Let_def
        split: if_splits)
  then show ?thesis using a pos by simp
qed

text \<open>
  C6: a \<^verbatim>\<open>takeCard\<close> that completes leaves the active player as it was, and a
  \<^verbatim>\<open>noThanks\<close> that completes moves the marker from player \<open>a\<close> to player
  \<open>(a + 1) mod playerCount\<close>.
\<close>

theorem active_player_after_action:
  "(takeCard s = (Completed, s') \<longrightarrow> activePlayer s' = activePlayer s) \<and>
   (noThanks s = (Completed, s') \<longrightarrow>
      (\<exists>a. activePlayer s = Some a \<and>
           activePlayer s' = Some ((a + 1) mod getPlayerCount s)))"
proof (intro conjI impI)
  assume "takeCard s = (Completed, s')"
  then have "s' = snd (takeCard s)" by simp
  then show "activePlayer s' = activePlayer s" by (simp add: takeCard_activePlayer)
next
  assume "noThanks s = (Completed, s')"
  from noThanks_activePlayer [OF this]
  show "\<exists>a. activePlayer s = Some a \<and> activePlayer s' = Some ((a + 1) mod getPlayerCount s)"
    by blast
qed


lemma noThanks_card24Out: "noThanks card24Out = (Completed, declinedOnce)"
  by (simp add: card24Out_def declinedOnce_def noThanks_def getCurrentCard_def
      getActivePlayer_def addTokensToPlayer_def getPlayerTokens_def js_add_def js_less_def
      setPlayerTokens_def setCurrentTokens_def getCurrentTokens_def advanceActivePlayer_def
      getPlayerCount_def MAX_PLAYER_COUNT_def setActivePlayer_def fun_eq_iff Let_def)

lemma noThanks_declinedOnce: "noThanks declinedOnce = (Completed, declinedTwice)"
  by (simp add: declinedOnce_def declinedTwice_def noThanks_def getCurrentCard_def
      getActivePlayer_def addTokensToPlayer_def getPlayerTokens_def js_add_def js_less_def
      setPlayerTokens_def setCurrentTokens_def getCurrentTokens_def advanceActivePlayer_def
      getPlayerCount_def MAX_PLAYER_COUNT_def setActivePlayer_def fun_eq_iff Let_def)

lemma takeCard_declinedTwice: "takeCard declinedTwice = (Completed, taken24)"
  by (simp add: declinedTwice_def taken24_def takeCard_def getCurrentCard_def
      getCurrentTokens_def setCurrentCard_def setCurrentTokens_def getActivePlayer_def
      addCardToPlayer_def addTokensToPlayer_def getPlayerTokens_def js_add_def js_less_def
      setPlayerTokens_def fun_eq_iff Let_def)

theorem active_player_after_action_witness:
  "getPlayerCount card24Out = 4 \<and>
   activePlayer card24Out = Some 2 \<and>
   noThanks card24Out = (Completed, declinedOnce) \<and>
   activePlayer declinedOnce = Some 3 \<and>
   noThanks declinedOnce = (Completed, declinedTwice) \<and>
   activePlayer declinedTwice = Some 0 \<and>
   takeCard declinedTwice = (Completed, taken24) \<and>
   activePlayer taken24 = Some 0"
proof -
  have count: "getPlayerCount card24Out = 4" "getPlayerCount declinedOnce = 4"
    by (simp_all add: card24Out_def declinedOnce_def getPlayerCount_def MAX_PLAYER_COUNT_def)
  have a2: "activePlayer card24Out = Some 2" by (simp add: card24Out_def)
  have a3: "activePlayer declinedOnce = Some 3"
    using active_player_after_action [of card24Out declinedOnce] noThanks_card24Out a2 count
    by simp
  have a0: "activePlayer declinedTwice = Some 0"
    using active_player_after_action [of declinedOnce declinedTwice] noThanks_declinedOnce
      a3 count
    by simp
  have "activePlayer taken24 = activePlayer declinedTwice"
    using active_player_after_action [of declinedTwice taken24] takeCard_declinedTwice
    by simp
  then show ?thesis
    using count a2 a3 a0 noThanks_card24Out noThanks_declinedOnce takeCard_declinedTwice
    by simp
qed

subsection \<open>Runs of consecutive cards\<close>









subsection \<open>Shuffling\<close>

lemma randInt_v1_0_index:
  assumes "0 \<le> u" "u < 1"
  shows "nat (randInt_v1_0 (int i) None u) \<le> i"
proof -
  have "randInt_v1_0 (int i) None u = randInt (int i) 0 u"
    by (simp add: randInt_v1_0_def randInt_def)
  moreover have "0 \<le> randInt (int i) 0 u \<and> randInt (int i) 0 u \<le> int i"
    using assms by (intro randInt_bounds) simp_all
  ultimately show ?thesis by (simp add: nat_le_iff)
qed

lemma shuffle_from_perm:
  assumes "\<And>k. 0 \<le> rnd k" "\<And>k. rnd k < 1" "i < length xs \<or> i = 0"
  shows "mset (shuffle_from i rnd xs) = mset xs \<and> length (shuffle_from i rnd xs) = length xs"
  using assms
proof (induction i arbitrary: rnd xs)
  case 0
  then show ?case by simp
next
  case (Suc i)
  let ?r = "nat (randInt_v1_0 (int (Suc i)) None (rnd 0))"
  let ?ys = "xs[Suc i := xs ! ?r, ?r := xs ! Suc i]"
  have i: "Suc i < length xs" using Suc.prems(3) by simp
  have "?r \<le> Suc i" using Suc.prems(1,2) by (intro randInt_v1_0_index)
  then have r: "?r < length xs" using i by simp
  have swap: "mset ?ys = mset xs" using r i by (rule mset_swap)
  have "mset (shuffle_from i (\<lambda>k. rnd (Suc k)) ?ys) = mset ?ys \<and>
        length (shuffle_from i (\<lambda>k. rnd (Suc k)) ?ys) = length ?ys"
    using Suc.prems(1,2) i by (intro Suc.IH) simp_all
  then show ?case using swap by (simp add: Let_def)
qed

text \<open>
  C10: \<^verbatim>\<open>shuffle\<close> returns a permutation of its argument: the same elements, each as
  often as before, and so the same length. The values of \<^verbatim>\<open>Math.random()\<close> lie in
  \<open>[0, 1)\<close>.
\<close>

theorem shuffle_permutation:
  assumes "\<And>k. 0 \<le> rnd k" "\<And>k. rnd k < 1"
  shows "mset (shuffle rnd xs) = mset xs \<and> length (shuffle rnd xs) = length xs"
proof -
  have "length xs - 1 < length xs \<or> length xs - 1 = 0" by (cases xs) simp_all
  then show ?thesis unfolding shuffle_def using assms by (intro shuffle_from_perm)
qed

theorem shuffle_permutation_witness:
  "shuffle (\<lambda>k. 1 / 2) [''Ann'', ''Bob'', ''Cyd'', ''Dee''] = [''Ann'', ''Dee'', ''Bob'', ''Cyd''] \<and>
   mset (shuffle (\<lambda>k. 1 / 2) [''Ann'', ''Bob'', ''Cyd'', ''Dee'']) =
     mset [''Ann'', ''Bob'', ''Cyd'', ''Dee''] \<and>
   length (shuffle (\<lambda>k. 1 / 2) [''Ann'', ''Bob'', ''Cyd'', ''Dee'']) = 4"
proof -
  have e: "shuffle (\<lambda>k. 1 / 2) [''Ann'', ''Bob'', ''Cyd'', ''Dee''] =
             [''Ann'', ''Dee'', ''Bob'', ''Cyd'']"
    by (simp add: shuffle_def randInt_v1_0_def eval_nat_numeral)
  have "mset (shuffle (\<lambda>k. 1 / 2) [''Ann'', ''Bob'', ''Cyd'', ''Dee'']) =
          mset [''Ann'', ''Bob'', ''Cyd'', ''Dee''] \<and>
        length (shuffle (\<lambda>k. 1 / 2) [''Ann'', ''Bob'', ''Cyd'', ''Dee'']) =
          length [''Ann'', ''Bob'', ''Cyd'', ''Dee'']"
    by (rule shuffle_permutation) simp_all
  then show ?thesis using e by simp
qed

subsection \<open>Token conservation\<close>



















subsection \<open>Card conservation\<close>















subsection \<open>A new game\<close>

lemma upto_from_0: "[0..int n - 1] = map int [0..<n]"
proof (induction n)
  case 0
  then show ?case by simp
next
  case (Suc n)
  have "[0..int (Suc n) - 1] = [0..int n - 1] @ [int n]"
    using upto_rec2 [of 0 "int n"] by simp
  then show ?case using Suc by simp
qed

lemma forEach_addTokens_snoc:
  "forEach_addTokens (xs @ [x]) t s =
     (case forEach_addTokens xs t s of
        (Some e, s') \<Rightarrow> (Some e, s')
      | (None, s') \<Rightarrow>
          (case addTokensToPlayer (nat x) t s' of
             Inl e \<Rightarrow> (Some e, s')
           | Inr s'' \<Rightarrow> (None, s'')))"
  by (induction xs arbitrary: s) (auto split: sum.splits)

text \<open>
  On the token object that \<^verbatim>\<open>newGame\<close> has just emptied, \<^verbatim>\<open>dealTokens\<close> never fails and
  leaves every player with the count \<^verbatim>\<open>null\<close>: the sum of \<^verbatim>\<open>undefined\<close> and the tokens is
  NaN, which is not below 0 and which the metadata holds as \<^verbatim>\<open>null\<close>.
\<close>

lemma dealTokens_after_reset:
  assumes "playerTokens s = (\<lambda>key. Undefined)"
  shows "dealTokens n s =
           (None, s\<lparr>playerTokens := (\<lambda>key. if key < n then Null else Undefined)\<rparr>)"
proof -
  have "forEach_addTokens (map int [0..<n]) t s =
          (None, s\<lparr>playerTokens := (\<lambda>key. if key < n then Null else Undefined)\<rparr>)" for t
  proof (induction n)
    case 0
    then show ?case using assms by simp
  next
    case (Suc n)
    let ?s = "s\<lparr>playerTokens := (\<lambda>key. if key < n then Null else Undefined)\<rparr>"
    have "addTokensToPlayer n t ?s =
            Inr (s\<lparr>playerTokens := (\<lambda>key. if key < Suc n then Null else Undefined)\<rparr>)"
      by (auto simp: addTokensToPlayer_def getPlayerTokens_def setPlayerTokens_def js_add_def
          js_less_def fun_eq_iff)
    then show ?case using Suc by (simp add: forEach_addTokens_snoc)
  qed
  then show ?thesis by (simp add: dealTokens_def range_js_def upto_from_0)
qed

text \<open>
  \<^verbatim>\<open>newGame\<close> on a sheet with at least one player name completes and leaves a game at its
  start, as the conservation theorems take it: no card, an empty pool, the marker on a
  player, empty hands, a deck of 24 distinct cards; the token counts it leaves are all
  \<^verbatim>\<open>null\<close>.
\<close>

lemma newGame_starts:
  assumes names: "0 < getPlayerCount s"
    and rnd: "\<And>i. 0 \<le> rnd i" "\<And>i. rnd i < 1"
  shows "fst (newGame rnd s) = Completed \<and>
         tokensDealt (snd (newGame rnd s)) \<and> cardsDealt (snd (newGame rnd s)) \<and>
         (\<forall>p \<in> set (players (snd (newGame rnd s))). playerTokens (snd (newGame rnd s)) p = Null)"
proof -
  let ?n = "getPlayerCount s"
  let ?s5 = "resetPlayerCards
               (s\<lparr>deck := None, playerTokens := (\<lambda>key. Undefined), currentCard := None,
                  currentTokens := 0\<rparr>)"
  have n5: "getPlayerCount ?s5 = ?n" by (simp add: resetPlayerCards_def getPlayerCount_def)
  obtain a where a: "a < ?n" "randInt (int ?n - 1) 0 (rnd 0) = int a"
    using randInt_index [OF rnd(1) rnd(2) names, of 0] by blast
  have a7: "a < MAX_PLAYER_COUNT" using a(1) getPlayerCount_le [of s] by simp
  let ?s6 = "?s5\<lparr>activePlayer := Some a\<rparr>"
  have s6: "setActivePlayer (randInt (int ?n - 1) 0 (rnd 0)) ?s5 = ?s6"
    using a(2) a7 by (simp add: setActivePlayer_def)
  let ?s7 = "?s6\<lparr>playerTokens := (\<lambda>key. if key < ?n then Null else Undefined)\<rparr>"
  have deal: "dealTokens ?n ?s6 = (None, ?s7)"
    by (rule dealTokens_after_reset) (simp add: resetPlayerCards_def)
  let ?d = "newDeck (\<lambda>i. rnd (Suc i))"
  have d: "length ?d = 24" "distinct ?d" "\<forall>c \<in> set ?d. 3 \<le> c \<and> c \<le> 35"
    using newDeck_scenario [of "\<lambda>i. rnd (Suc i)"] rnd by simp_all
  let ?s8 = "?s7\<lparr>deck := Some ?d\<rparr>"
  have s8: "setDeck (Some ?d) ?s7 = ?s8" using d(1) by (simp add: setDeck_def)
  have s1: "setDeck None s = s\<lparr>deck := None\<rparr>" by (simp add: setDeck_def)
  have eq: "newGame rnd s = (Completed, ?s8)"
    unfolding newGame_def
    by (simp add: s1 setPlayerTokens_def setCurrentCard_def setCurrentTokens_Null
        Let_def n5 s6 deal s8)
  have n8: "getPlayerCount ?s8 = ?n" by (simp add: resetPlayerCards_def getPlayerCount_def)
  have valid: "validActivePlayer ?s8" using a(1) n8 by (simp add: validActivePlayer_def)
  have f8: "currentCard ?s8 = None" "currentTokens ?s8 = 0" "deckCards ?s8 = ?d"
    by (simp_all add: resetPlayerCards_def deckCards_def)
  have tok: "\<forall>p \<in> set (players ?s8). playerTokens ?s8 p = Null"
    unfolding players_def n8 by simp
  have counts: "list_all (\<lambda>p. isCount (playerTokens ?s8 p)) (players ?s8)"
    unfolding players_def n8 by (simp add: list_all_iff)
  have hands: "list_all (\<lambda>p. playerCards ?s8 p = []) (players ?s8)"
    unfolding players_def n8 using getPlayerCount_le [of s]
    by (auto simp: list_all_iff resetPlayerCards_def)
  have inrange: "list_all (\<lambda>c. MIN_CARD \<le> c \<and> c \<le> MAX_CARD) ?d"
    using d(3) by (simp add: list_all_iff MIN_CARD_def MAX_CARD_def)
  have number: "int (length ?d) + int SETUP_CARDS_REMOVED = MAX_CARD - MIN_CARD + 1"
    using d(1) by (simp add: MIN_CARD_def MAX_CARD_def SETUP_CARDS_REMOVED_def)
  have "tokensDealt ?s8"
    unfolding tokensDealt_def using f8(1,2) valid counts by blast
  moreover have "cardsDealt ?s8"
    unfolding cardsDealt_def f8(3) using f8(1) valid hands d(2) inrange number by blast
  ultimately show ?thesis unfolding eq fst_conv snd_conv using tok by blast
qed

text \<open>
  \<^verbatim>\<open>dealTokens\<close> of \<^verbatim>\<open>part_000\<close> stores the count itself: on a sheet with 3 to 7 names the
  players then hold what \<^verbatim>\<open>tokensPerPlayer\<close> gives, each.
\<close>

lemma dealTokens_p0_counts:
  assumes "p < n"
  shows "playerTokens (dealTokens_p0 n s) p = tokensFor n"
proof -
  have "int p \<in> set (xrange (int n) None)" using assms by (simp add: xrange_def)
  moreover have "json (tokensFor n) = tokensFor n" by (simp add: tokensFor_def)
  ultimately show ?thesis by (simp add: dealTokens_p0_def setPlayerTokens_def)
qed

lemma tokensFor_tokensPerPlayer:
  assumes "3 \<le> n" "n \<le> 7"
  shows "tokensPerPlayer n = Inr (tokensHeld (tokensFor n))"
  using assms by (auto simp: tokensPerPlayer_def tokensFor_def tokensHeld_def)

text \<open>
  \<^verbatim>\<open>newGame\<close> on a sheet with two names: it completes, and both players are left with the
  count \<^verbatim>\<open>null\<close>.
\<close>

lemma newGame_two_players:
  "fst (newGame (\<lambda>i. 0) (emptySheet [''Ann'', ''Bob''])) = Completed \<and>
   map (playerTokens (snd (newGame (\<lambda>i. 0) (emptySheet [''Ann'', ''Bob''])))) [0, 1] =
     [Null, Null]"
proof -
  have n: "getPlayerCount (emptySheet [''Ann'', ''Bob'']) = 2"
    by (simp add: emptySheet_def getPlayerCount_def MAX_PLAYER_COUNT_def)
  let ?s = "snd (newGame (\<lambda>i. 0) (emptySheet [''Ann'', ''Bob'']))"
  have "playerNames ?s = playerNames (emptySheet [''Ann'', ''Bob''])"
    by (simp add: newGame_def setDeck_def setPlayerTokens_def setCurrentCard_def
        setCurrentTokens_Null Let_def resetPlayerCards_def setActivePlayer_def
        dealTokens_after_reset split: option.splits)
  then have "getPlayerCount ?s = 2"
    using n by (simp add: getPlayerCount_def)
  then have "players ?s = [0, 1]"
    by (simp add: players_def eval_nat_numeral)
  then show ?thesis
    using newGame_starts [of "emptySheet [''Ann'', ''Bob'']" "\<lambda>i. 0"] n by simp
qed

end
